theory Spec2Isabelle
  imports Complex_Main "HOL-Library.Multiset"
begin

section \<open>The container-loading engine of \<^verbatim>\<open>src/clp/base.py\<close>\<close>

text \<open>
  A shallow embedding of the classes \<^verbatim>\<open>Boxtype\<close>, \<^verbatim>\<open>Itemdict\<close>, \<^verbatim>\<open>Aabb\<close>,
  \<^verbatim>\<open>Space\<close>, \<^verbatim>\<open>FreeSpace\<close>, \<^verbatim>\<open>Block\<close> and \<^verbatim>\<open>BlockList\<close>. Python's integers
  are \<open>int\<close>. A method that mutates \<^verbatim>\<open>self\<close> returns the updated object; a
  method that may raise returns \<open>error + 'a\<close>, with the exception as \<open>Inl\<close>.
\<close>

subsection \<open>Exceptions\<close>

datatype error = ValueError | KeyError | ZeroDivisionError | OverflowError
  | AttributeError | TypeError | IndexError

definition bindE :: "error + 'a \<Rightarrow> ('a \<Rightarrow> error + 'b) \<Rightarrow> error + 'b" where
  "bindE r f = (case r of Inl e \<Rightarrow> Inl e | Inr v \<Rightarrow> f v)"

subsection \<open>Boxtype\<close>

text \<open>
  The attribute \<^verbatim>\<open>volume\<close> is assigned once, in \<^verbatim>\<open>__init__\<close>, as \<^verbatim>\<open>l*w*h\<close>, and
  nothing in the repository assigns an attribute of a \<^verbatim>\<open>Boxtype\<close> afterwards: it is
  the function \<open>bt_volume\<close> of the record. Box types are dictionary keys by object identity;
  the record's equality stands for it (\<^verbatim>\<open>id\<close> is documented as the unique identifier of the
  type).
\<close>

record Boxtype =
  bt_id :: int
  bt_l :: int
  bt_w :: int
  bt_h :: int
  rot_l :: bool
  rot_w :: bool
  rot_h :: bool
  bt_weight :: int

definition bt_volume :: "Boxtype \<Rightarrow> int" where
  "bt_volume b = bt_l b * bt_w b * bt_h b"

subsection \<open>Itemdict\<close>

text \<open>
  A Python \<^verbatim>\<open>dict\<close> iterates in insertion order and holds each key once: an association
  list, read from the left. The quantities are \<open>int\<close>, so the test
  \<^verbatim>\<open>isinstance(other[key], int)\<close> of \<^verbatim>\<open>__iadd__\<close> and \<^verbatim>\<open>__isub__\<close> holds by typing.
\<close>

type_synonym Itemdict = "(Boxtype \<times> int) list"

definition dict_get :: "Itemdict \<Rightarrow> Boxtype \<Rightarrow> int \<Rightarrow> int" where
  "dict_get d key dflt = (case map_of d key of None \<Rightarrow> dflt | Some v \<Rightarrow> v)"

definition dict_getitem :: "Itemdict \<Rightarrow> Boxtype \<Rightarrow> error + int" where
  "dict_getitem d key = (case map_of d key of None \<Rightarrow> Inl KeyError | Some v \<Rightarrow> Inr v)"

fun dict_setitem :: "Itemdict \<Rightarrow> Boxtype \<Rightarrow> int \<Rightarrow> Itemdict" where
  "dict_setitem [] key v = [(key, v)]"
| "dict_setitem ((k, u) # d) key v =
     (if k = key then (k, v) # d else (k, u) # dict_setitem d key v)"

text \<open>\<^verbatim>\<open>for key in other: self[key] = self.get(key, 0) + other[key]\<close>\<close>

fun Itemdict_iadd :: "Itemdict \<Rightarrow> Itemdict \<Rightarrow> Itemdict" where
  "Itemdict_iadd self [] = self"
| "Itemdict_iadd self ((key, v) # other) =
     Itemdict_iadd (dict_setitem self key (dict_get self key 0 + v)) other"

text \<open>\<^verbatim>\<open>for key in other: self[key] = self.get(key, 0) - other[key]\<close>\<close>

fun Itemdict_isub :: "Itemdict \<Rightarrow> Itemdict \<Rightarrow> Itemdict" where
  "Itemdict_isub self [] = self"
| "Itemdict_isub self ((key, v) # other) =
     Itemdict_isub (dict_setitem self key (dict_get self key 0 - v)) other"

text \<open>\<^verbatim>\<open>for key in self: if self[key] > other.get(key, 0): return False\<close>\<close>

fun Itemdict_le :: "Itemdict \<Rightarrow> Itemdict \<Rightarrow> bool" where
  "Itemdict_le [] other = True"
| "Itemdict_le ((key, v) # self) other =
     (if v > dict_get other key 0 then False else Itemdict_le self other)"

subsection \<open>Aabb\<close>

text \<open>
  The attributes \<^verbatim>\<open>l\<close>, \<^verbatim>\<open>w\<close>, \<^verbatim>\<open>h\<close> and \<^verbatim>\<open>volume\<close> are assigned in
  \<^verbatim>\<open>__init__\<close> from the six coordinates and never again: they are functions of the record.
  The file declares the class twice (lines 114 and 251) with the same \<^verbatim>\<open>__init__\<close>
  check. The second declaration rebinds the name \<^verbatim>\<open>Aabb\<close> and has the methods
  \<^verbatim>\<open>strict_intersects\<close>, \<^verbatim>\<open>intersects\<close>, \<^verbatim>\<open>can_contain\<close>, \<^verbatim>\<open>__ge__\<close> and
  \<^verbatim>\<open>__str__\<close>: every \<^verbatim>\<open>Aabb\<close> the program builds is an instance of it.
  \<^verbatim>\<open>subtract\<close> is a method of the first declaration only.
\<close>

record Aabb =
  xmin :: int
  xmax :: int
  ymin :: int
  ymax :: int
  zmin :: int
  zmax :: int

definition Aabb_l :: "'a Aabb_scheme \<Rightarrow> int" where
  "Aabb_l a = xmax a - xmin a"

definition Aabb_w :: "'a Aabb_scheme \<Rightarrow> int" where
  "Aabb_w a = ymax a - ymin a"

definition Aabb_h :: "'a Aabb_scheme \<Rightarrow> int" where
  "Aabb_h a = zmax a - zmin a"

definition Aabb_volume :: "'a Aabb_scheme \<Rightarrow> int" where
  "Aabb_volume a = Aabb_l a * Aabb_w a * Aabb_h a"

definition Aabb_init :: "int \<Rightarrow> int \<Rightarrow> int \<Rightarrow> int \<Rightarrow> int \<Rightarrow> int \<Rightarrow> error + Aabb" where
  "Aabb_init x0 x1 y0 y1 z0 z1 =
     (if x1 \<le> x0 \<or> y1 \<le> y0 \<or> z1 \<le> z0 then Inl ValueError
      else Inr \<lparr>xmin = x0, xmax = x1, ymin = y0, ymax = y1, zmin = z0, zmax = z1\<rparr>)"

definition strict_intersects :: "'a Aabb_scheme \<Rightarrow> 'b Aabb_scheme \<Rightarrow> bool" where
  "strict_intersects self aabb \<longleftrightarrow>
     xmin self < xmax aabb \<and> xmax self > xmin aabb \<and>
     ymin self < ymax aabb \<and> ymax self > ymin aabb \<and>
     zmin self < zmax aabb \<and> zmax self > zmin aabb"

definition intersects :: "'a Aabb_scheme \<Rightarrow> 'b Aabb_scheme \<Rightarrow> bool" where
  "intersects self aabb \<longleftrightarrow>
     xmin self \<le> xmax aabb \<and> xmax self \<ge> xmin aabb \<and>
     ymin self \<le> ymax aabb \<and> ymax self \<ge> ymin aabb \<and>
     zmin self \<le> zmax aabb \<and> zmax self \<ge> zmin aabb"

definition Aabb_ge :: "'a Aabb_scheme \<Rightarrow> 'b Aabb_scheme \<Rightarrow> bool" where
  "Aabb_ge self aabb \<longleftrightarrow>
     xmin self \<le> xmin aabb \<and> xmax self \<ge> xmax aabb \<and>
     ymin self \<le> ymin aabb \<and> ymax self \<ge> ymax aabb \<and>
     zmin self \<le> zmin aabb \<and> zmax self \<ge> zmax aabb"

text \<open>\<^verbatim>\<open>if cond: lst.append(C(...))\<close>, where the constructor may raise.\<close>

definition append_if :: "bool \<Rightarrow> error + 'a \<Rightarrow> 'a list \<Rightarrow> error + 'a list" where
  "append_if c new lst = (if c then bindE new (\<lambda>v. Inr (lst @ [v])) else Inr lst)"

text \<open>
  The body of \<^verbatim>\<open>subtract\<close> as written under the first declaration (lines 185 to 208),
  which no object of the program has.
\<close>

definition Aabb_subtract_first_declaration ::
  "'a Aabb_scheme \<Rightarrow> 'b Aabb_scheme \<Rightarrow> error + Aabb list" where
  "Aabb_subtract_first_declaration self aabb =
     bindE (append_if (xmax aabb < xmax self)
       (Aabb_init (xmax aabb) (xmax self) (ymin self) (ymax self) (zmin self) (zmax self)) [])
    (\<lambda>s1. bindE (append_if (ymax aabb < ymax self)
       (Aabb_init (xmin self) (xmax self) (ymax aabb) (ymax self) (zmin self) (zmax self)) s1)
    (\<lambda>s2. bindE (append_if (zmax aabb < zmax self)
       (Aabb_init (xmin self) (xmax self) (ymin self) (ymax self) (zmax aabb) (zmax self)) s2)
    (\<lambda>s3. bindE (append_if (xmin aabb > xmin self)
       (Aabb_init (xmin self) (xmin aabb) (ymin self) (ymax self) (zmin self) (zmax self)) s3)
    (\<lambda>s4. bindE (append_if (ymin aabb > ymin self)
       (Aabb_init (xmin self) (xmax self) (ymin self) (ymin aabb) (zmin self) (zmax self)) s4)
    (\<lambda>s5. append_if (zmin aabb > zmin self)
       (Aabb_init (xmin self) (xmax self) (ymin self) (ymax self) (zmin self) (zmin aabb)) s5)))))"

text \<open>
  \<^verbatim>\<open>A.subtract(B)\<close> on two boxes of the program: the class that \<^verbatim>\<open>Aabb\<close> names has no
  attribute \<^verbatim>\<open>subtract\<close>, so the lookup raises before the arguments are read.
\<close>

definition Aabb_subtract :: "Aabb \<Rightarrow> Aabb \<Rightarrow> error + Aabb list" where
  "Aabb_subtract self aabb = Inl AttributeError"

text \<open>
  The integer points of a box: the unit cells \<open>(x, y, z)\<close> with
  \<open>xmin \<le> x < xmax\<close> and likewise for \<open>y\<close> and \<open>z\<close>, so that a box built by
  \<^verbatim>\<open>Aabb(...)\<close> has \<^verbatim>\<open>volume\<close> many of them.
\<close>

definition cells :: "'a Aabb_scheme \<Rightarrow> (int \<times> int \<times> int) set" where
  "cells a = {xmin a ..< xmax a} \<times> {ymin a ..< ymax a} \<times> {zmin a ..< zmax a}"

definition is_Aabb :: "'a Aabb_scheme \<Rightarrow> bool" where
  "is_Aabb a \<longleftrightarrow> xmin a < xmax a \<and> ymin a < ymax a \<and> zmin a < zmax a"

subsection \<open>Space\<close>

text \<open>
  The class attributes \<^verbatim>\<open>Space.filling\<close> and \<^verbatim>\<open>Space.vertical_stability\<close> are the
  record \<open>config\<close>, passed to every function that reads them. A \<^verbatim>\<open>Space\<close> keeps a reference
  to a block and reads its \<^verbatim>\<open>l\<close>, \<^verbatim>\<open>w\<close>, \<^verbatim>\<open>h\<close> in \<^verbatim>\<open>__init__\<close>: the reference is
  the triple of these three attributes.
\<close>

record config =
  filling :: string
  vertical_stability :: bool

type_synonym block_ref = "int \<times> int \<times> int"

definition ref_l :: "block_ref \<Rightarrow> int" where "ref_l b = fst b"
definition ref_w :: "block_ref \<Rightarrow> int" where "ref_w b = fst (snd b)"
definition ref_h :: "block_ref \<Rightarrow> int" where "ref_h b = snd (snd b)"

record Space = Aabb +
  container_block :: block_ref
  corner_point :: "int list"
  manhattan :: int

definition Space_init ::
  "config \<Rightarrow> int \<Rightarrow> int \<Rightarrow> int \<Rightarrow> int \<Rightarrow> int \<Rightarrow> int \<Rightarrow> block_ref \<Rightarrow> error + Space" where
  "Space_init cfg x0 x1 y0 y1 z0 z1 block =
     bindE (Aabb_init x0 x1 y0 y1 z0 z1) (\<lambda>a.
       let zdist0 = (if filling cfg = ''bottom-up'' then 1000 * z0 else z0);
           nearx = (ref_l block - x1 < x0 \<and> filling cfg \<noteq> ''origin'');
           neary = (ref_w block - y1 < y0 \<and> filling cfg \<noteq> ''origin'');
           nearz = (ref_h block - z1 < z0 \<and> filling cfg = ''free'');
           xdist = (if nearx then ref_l block - x1 else x0);
           ydist = (if neary then ref_w block - y1 else y0);
           zdist = (if nearz then ref_h block - z1 else zdist0)
       in Inr \<lparr>xmin = xmin a, xmax = xmax a, ymin = ymin a, ymax = ymax a,
               zmin = zmin a, zmax = zmax a,
               container_block = block,
               corner_point = [if nearx then x1 else x0, if neary then y1 else y0,
                               if nearz then z1 else z0],
               manhattan = xdist + ydist + zdist\<rparr>)"

definition Space_subtract ::
  "config \<Rightarrow> 'a Aabb_scheme \<Rightarrow> 'b Aabb_scheme \<Rightarrow> block_ref \<Rightarrow> error + Space list" where
  "Space_subtract cfg self aabb cb =
     bindE (append_if (xmax aabb < xmax self)
       (Space_init cfg (xmax aabb) (xmax self) (ymin self) (ymax self) (zmin self) (zmax self) cb) [])
    (\<lambda>s1. bindE (append_if (ymax aabb < ymax self)
       (Space_init cfg (xmin self) (xmax self) (ymax aabb) (ymax self) (zmin self) (zmax self) cb) s1)
    (\<lambda>s2. bindE (append_if (zmax aabb < zmax self)
       (if \<not> vertical_stability cfg
        then Space_init cfg (xmin self) (xmax self) (ymin self) (ymax self) (zmax aabb) (zmax self) cb
        else Space_init cfg (xmin aabb) (xmax aabb) (ymin aabb) (ymax aabb) (zmax aabb) (zmax self) cb) s2)
    (\<lambda>s3. bindE (append_if (xmin aabb > xmin self)
       (Space_init cfg (xmin self) (xmin aabb) (ymin self) (ymax self) (zmin self) (zmax self) cb) s3)
    (\<lambda>s4. bindE (append_if (ymin aabb > ymin self)
       (Space_init cfg (xmin self) (xmax self) (ymin self) (ymin aabb) (zmin self) (zmax self) cb) s4)
    (\<lambda>s5. append_if (zmin aabb > zmin self)
       (Space_init cfg (xmin self) (xmax self) (ymin self) (ymax self) (zmin self) (zmin aabb) cb) s5)))))"

subsection \<open>FreeSpace\<close>

record FreeSpace =
  spaces :: "Space list"

text \<open>
  \<^verbatim>\<open>aabbs.sort(key=lambda aabb: aabb.volume, reverse=True)\<close> is a stable sort by
  descending volume. The two nested loops over indices collect \<^verbatim>\<open>to_remove\<close>; the
  slice assignment keeps the other indices in order.
\<close>

definition remove_nonmaximal_spaces :: "Space list \<Rightarrow> Space list" where
  "remove_nonmaximal_spaces aabbs0 =
     (let aabbs = sort_key (\<lambda>aabb. - Aabb_volume aabb) aabbs0;
          n = length aabbs;
          to_remove =
            fold (\<lambda>i. fold (\<lambda>j tr. if j \<in> set tr then tr
                                    else if Aabb_ge (aabbs ! i) (aabbs ! j) then j # tr
                                    else tr) [i + 1 ..< n]) [0 ..< n] []
      in map (\<lambda>i. aabbs ! i) (filter (\<lambda>i. i \<notin> set to_remove) [0 ..< n]))"

text \<open>The first loop of \<^verbatim>\<open>crop\<close>: it returns \<^verbatim>\<open>(new_spaces, to_remove)\<close>.\<close>

fun crop_scan ::
  "config \<Rightarrow> Space list \<Rightarrow> Aabb \<Rightarrow> block_ref \<Rightarrow> Space list \<Rightarrow> Space list
     \<Rightarrow> error + (Space list \<times> Space list)" where
  "crop_scan cfg [] aabb cb new_spaces to_remove = Inr (new_spaces, to_remove)"
| "crop_scan cfg (space # rest) aabb cb new_spaces to_remove =
     (if intersects space aabb then
        (if strict_intersects space aabb then
           bindE (Space_subtract cfg space aabb cb) (\<lambda>sub.
             crop_scan cfg rest aabb cb (new_spaces @ sub) (to_remove @ [space]))
         else crop_scan cfg rest aabb cb (new_spaces @ [space]) (to_remove @ [space]))
      else crop_scan cfg rest aabb cb new_spaces to_remove)"

definition crop :: "config \<Rightarrow> FreeSpace \<Rightarrow> Aabb \<Rightarrow> block_ref \<Rightarrow> error + FreeSpace" where
  "crop cfg self aabb cb =
     bindE (crop_scan cfg (spaces self) aabb cb [] []) (\<lambda>(new_spaces, to_remove).
       Inr \<lparr>spaces = fold remove1 to_remove (spaces self)
                       @ remove_nonmaximal_spaces new_spaces\<rparr>)"

subsection \<open>Block\<close>

text \<open>
  The four branches of \<^verbatim>\<open>__init__\<close> set different attributes: \<^verbatim>\<open>free_space\<close>,
  \<^verbatim>\<open>aabbs\<close> and \<^verbatim>\<open>tokens\<close> are \<open>None\<close> where the branch taken does not assign them,
  and reading such an attribute raises \<^verbatim>\<open>AttributeError\<close>. The tokens are opaque.
\<close>

record Block =
  blk_l :: int
  blk_w :: int
  blk_h :: int
  occupied_volume :: int
  weight :: int
  volume :: int
  items :: Itemdict
  free_space :: "FreeSpace option"
  aabbs :: "Aabb list option"
  tokens :: "string list option"

text \<open>The argument \<^verbatim>\<open>rot\<close>: a string such as \<^verbatim>\<open>"lwh"\<close>, or the default \<^verbatim>\<open>True\<close>.\<close>

datatype rotation = RotBool bool | RotStr string

definition rot_at :: "rotation \<Rightarrow> nat \<Rightarrow> error + char" where
  "rot_at rot i =
     (case rot of RotBool b \<Rightarrow> Inl TypeError
      | RotStr s \<Rightarrow> if i < length s then Inr (s ! i) else Inl IndexError)"

text \<open>
  One position of \<^verbatim>\<open>_initialize_from_boxtype\<close>: the dimension starts at 0 and the tests for
  \<^verbatim>\<open>'w'\<close>, \<^verbatim>\<open>'l'\<close>, \<^verbatim>\<open>'h'\<close> run in this order, each overwriting it.
\<close>

definition pick_dim :: "Boxtype \<Rightarrow> char \<Rightarrow> int" where
  "pick_dim boxtype c =
     (let d0 = 0;
          d1 = (if c = CHR ''w'' then bt_w boxtype else d0);
          d2 = (if c = CHR ''l'' then bt_l boxtype else d1)
      in if c = CHR ''h'' then bt_h boxtype else d2)"

definition initialize_from_boxtype :: "Boxtype \<Rightarrow> rotation \<Rightarrow> error + Block" where
  "initialize_from_boxtype boxtype rot =
     bindE (rot_at rot 0) (\<lambda>r0. bindE (rot_at rot 1) (\<lambda>r1. bindE (rot_at rot 2) (\<lambda>r2.
       Inr \<lparr>blk_l = pick_dim boxtype r0, blk_w = pick_dim boxtype r1,
            blk_h = pick_dim boxtype r2,
            occupied_volume = bt_volume boxtype, weight = bt_weight boxtype,
            volume = bt_volume boxtype, items = [(boxtype, 1)],
            free_space = None, aabbs = None, tokens = None\<rparr>)))"

text \<open>\<^verbatim>\<open>for item, quantity in items.items(): ...\<close> of the first branch of \<^verbatim>\<open>__init__\<close>.\<close>

fun init_from_items :: "Block \<Rightarrow> Itemdict \<Rightarrow> Block" where
  "init_from_items self [] = self"
| "init_from_items self ((item, quantity) # rest) =
     init_from_items
       (self\<lparr>occupied_volume := occupied_volume self + bt_volume item * quantity,
             weight := weight self + bt_weight item * quantity,
             items := dict_setitem (items self) item quantity\<rparr>) rest"

definition Block_init ::
  "config \<Rightarrow> Boxtype option \<Rightarrow> rotation \<Rightarrow> int \<Rightarrow> int \<Rightarrow> int \<Rightarrow> Block option
     \<Rightarrow> Itemdict option \<Rightarrow> error + Block" where
  "Block_init cfg boxtype rot l w h copy_block its =
     (case its of
        Some d \<Rightarrow>
          Inr (init_from_items
                 \<lparr>blk_l = l, blk_w = w, blk_h = h, occupied_volume = 0, weight = 0,
                  volume = l * w * h, items = [],
                  free_space = None, aabbs = None, tokens = None\<rparr> d)
      | None \<Rightarrow>
     (case copy_block of
        Some c \<Rightarrow>
          (case tokens c of
             None \<Rightarrow> Inl AttributeError
           | Some t \<Rightarrow>
               Inr \<lparr>blk_l = blk_l c, blk_w = blk_w c, blk_h = blk_h c,
                    occupied_volume = occupied_volume c, weight = weight c,
                    volume = volume c, items = items c,
                    free_space = None, aabbs = None, tokens = Some t\<rparr>)
      | None \<Rightarrow>
     (case boxtype of
        Some bt \<Rightarrow>
          bindE (initialize_from_boxtype bt rot) (\<lambda>b.
            Inr (b\<lparr>free_space := Some \<lparr>spaces = []\<rparr>, tokens := Some []\<rparr>))
      | None \<Rightarrow>
          bindE (Space_init cfg 0 l 0 w 0 h (l, w, h)) (\<lambda>s.
            Inr \<lparr>blk_l = l, blk_w = w, blk_h = h, occupied_volume = 0, weight = 0,
                 volume = l * w * h, items = [],
                 free_space = Some \<lparr>spaces = [s]\<rparr>, aabbs = Some [],
                 tokens = None\<rparr>))))"

text \<open>
  \<^verbatim>\<open>add_block\<close> hands \<^verbatim>\<open>block\<close>, the block being placed, to \<^verbatim>\<open>crop\<close> as its
  \<^verbatim>\<open>container_block\<close> argument.
\<close>

definition add_block :: "config \<Rightarrow> Block \<Rightarrow> Block \<Rightarrow> int \<Rightarrow> int \<Rightarrow> int \<Rightarrow> error + Block" where
  "add_block cfg self block x y z =
     bindE (Aabb_init x (x + blk_l block) y (y + blk_w block) z (z + blk_h block)) (\<lambda>aabb.
       case aabbs self of
         None \<Rightarrow> Inl AttributeError
       | Some placed \<Rightarrow>
           let self1 = self\<lparr>aabbs := Some (placed @ [aabb]),
                            occupied_volume := occupied_volume self + occupied_volume block,
                            weight := weight self + weight block,
                            items := Itemdict_iadd (items self) (items block)\<rparr>
           in (case free_space self1 of
                 None \<Rightarrow> Inl AttributeError
               | Some fs \<Rightarrow>
                   bindE (crop cfg fs aabb (blk_l block, blk_w block, blk_h block)) (\<lambda>fs'.
                     Inr (self1\<lparr>free_space := Some fs'\<rparr>))))"

text \<open>A sequence of \<^verbatim>\<open>add_block\<close> calls on one block; the first exception ends it.\<close>

fun add_blocks :: "config \<Rightarrow> Block \<Rightarrow> (Block \<times> int \<times> int \<times> int) list \<Rightarrow> error + Block" where
  "add_blocks cfg self [] = Inr self"
| "add_blocks cfg self ((block, x, y, z) # rest) =
     bindE (add_block cfg self block x y z) (\<lambda>self'. add_blocks cfg self' rest)"

text \<open>
  \<^verbatim>\<open>join\<close> divides two integers with \<^verbatim>\<open>/\<close> and compares the floating-point quotient with
  \<^verbatim>\<open>min_fr\<close>. The division (which raises on a zero divisor, and on a quotient beyond the
  floating-point range) and the comparison are the parameter \<open>float_ops\<close>, so that what is
  proved of \<open>join\<close> holds for Python's floating-point numbers; \<open>exact_ops\<close> is the
  instance on the rationals, without rounding. The argument \<^verbatim>\<open>dim\<close> is \<open>axis\<close> here.
\<close>

record 'f float_ops =
  truediv :: "int \<Rightarrow> int \<Rightarrow> error + 'f"
  less_than :: "'f \<Rightarrow> 'f \<Rightarrow> bool"

definition exact_ops :: "rat float_ops" where
  "exact_ops =
     \<lparr>truediv = (\<lambda>p q. if q = 0 then Inl ZeroDivisionError else Inr (of_int p / of_int q)),
      less_than = (\<lambda>a b. a < b)\<rparr>"

definition joined_dims :: "Block \<Rightarrow> Block \<Rightarrow> string \<Rightarrow> (int \<times> int \<times> int) option" where
  "joined_dims self block axis =
     (if axis = ''x'' then
        Some (blk_l self + blk_l block, max (blk_w self) (blk_w block),
              max (blk_h self) (blk_h block))
      else if axis = ''y'' then
        Some (max (blk_l self) (blk_l block), blk_w self + blk_w block,
              max (blk_h self) (blk_h block))
      else if axis = ''z'' then
        Some (max (blk_l self) (blk_l block), max (blk_w self) (blk_w block),
              blk_h self + blk_h block)
      else None)"

definition join ::
  "'f float_ops \<Rightarrow> Block \<Rightarrow> Block \<Rightarrow> string \<Rightarrow> 'f \<Rightarrow> error + (bool \<times> Block)" where
  "join fo self block axis min_fr =
     (case joined_dims self block axis of
        None \<Rightarrow> Inr (False, self)
      | Some (l, w, h) \<Rightarrow>
          let new_volume = l * w * h in
          bindE (truediv fo (occupied_volume self + occupied_volume block) new_volume) (\<lambda>fr.
            if less_than fo fr min_fr then Inr (False, self)
            else Inr (True,
                   self\<lparr>blk_l := l, blk_w := w, blk_h := h, volume := new_volume,
                        weight := weight self + weight block,
                        occupied_volume := occupied_volume self + occupied_volume block,
                        items := Itemdict_iadd (items self) (items block)\<rparr>)))"

text \<open>\<^verbatim>\<open>for item in self.items: if items[item] < self.items[item]: return False\<close>\<close>

fun is_constructible_loop :: "Itemdict \<Rightarrow> Itemdict \<Rightarrow> error + bool" where
  "is_constructible_loop [] pool = Inr True"
| "is_constructible_loop ((item, q) # rest) pool =
     bindE (dict_getitem pool item) (\<lambda>p.
       if p < q then Inr False else is_constructible_loop rest pool)"

definition is_constructible :: "Block \<Rightarrow> Itemdict \<Rightarrow> error + bool" where
  "is_constructible self pool = is_constructible_loop (items self) pool"

subsection \<open>BlockList\<close>

definition new_simple :: "config \<Rightarrow> Boxtype \<Rightarrow> string \<Rightarrow> error + Block" where
  "new_simple cfg item rot = Block_init cfg (Some item) (RotStr rot) 0 0 0 None None"

fun generate_simple_blocks :: "config \<Rightarrow> Block list \<Rightarrow> Itemdict \<Rightarrow> error + Block list" where
  "generate_simple_blocks cfg self [] = Inr self"
| "generate_simple_blocks cfg self ((item, q) # rest) =
     bindE (append_if True (new_simple cfg item ''lwh'') self)
    (\<lambda>b1. bindE (append_if (rot_l item) (new_simple cfg item ''whl'') b1)
    (\<lambda>b2. bindE (append_if (rot_l item) (new_simple cfg item ''hwl'') b2)
    (\<lambda>b3. bindE (append_if (rot_w item) (new_simple cfg item ''lhw'') b3)
    (\<lambda>b4. bindE (append_if (rot_w item) (new_simple cfg item ''hlw'') b4)
    (\<lambda>b5. bindE (append_if (rot_h item) (new_simple cfg item ''wlh'') b5)
    (\<lambda>b6. generate_simple_blocks cfg b6 rest))))))"

text \<open>The permutations of a list, each once per arrangement of positions.\<close>

fun interleave :: "'a \<Rightarrow> 'a list \<Rightarrow> 'a list list" where
  "interleave x [] = [[x]]"
| "interleave x (y # ys) = (x # y # ys) # map ((#) y) (interleave x ys)"

fun permutations :: "'a list \<Rightarrow> 'a list list" where
  "permutations [] = [[]]"
| "permutations (x # xs) = concat (map (interleave x) (permutations xs))"

definition block_dims :: "Block \<Rightarrow> int list" where
  "block_dims b = [blk_l b, blk_w b, blk_h b]"

subsection \<open>Notions used in the statements\<close>

text \<open>
  No constructor of \<^verbatim>\<open>Block\<close> checks the dimensions it is given, nor that \<^verbatim>\<open>rot\<close> is a
  permutation of \<^verbatim>\<open>"lwh"\<close>. The blocks the engine builds from boxes have non-negative
  dimensions (\<open>nonneg_dims\<close>) and \<^verbatim>\<open>volume = l*w*h\<close> (\<open>well_formed\<close>): simple
  blocks of boxes with non-negative dimensions have both, and \<^verbatim>\<open>join\<close> keeps them
  (lemmas \<open>well_formed_new_simple\<close>, \<open>well_formed_join\<close>).
\<close>

definition nonneg_dims :: "Block \<Rightarrow> bool" where
  "nonneg_dims b \<longleftrightarrow> 0 \<le> blk_l b \<and> 0 \<le> blk_w b \<and> 0 \<le> blk_h b"

definition well_formed :: "Block \<Rightarrow> bool" where
  "well_formed b \<longleftrightarrow> nonneg_dims b \<and> volume b = blk_l b * blk_w b * blk_h b"

text \<open>The sum of the volumes of the boxes in \<^verbatim>\<open>self.aabbs\<close>.\<close>

definition placed_volume :: "Block \<Rightarrow> int" where
  "placed_volume b = (case aabbs b of None \<Rightarrow> 0 | Some placed \<Rightarrow> sum_list (map Aabb_volume placed))"

text \<open>
  The list the body of \<^verbatim>\<open>subtract\<close> under the first declaration builds when no
  constructor raises (lemma \<open>first_declaration_slabs\<close>): one slab per test that holds, in
  the order of the tests.
\<close>

definition slabs :: "'a Aabb_scheme \<Rightarrow> 'b Aabb_scheme \<Rightarrow> Aabb list" where
  "slabs A B =
     (if xmax B < xmax A
      then [\<lparr>xmin = xmax B, xmax = xmax A, ymin = ymin A, ymax = ymax A,
             zmin = zmin A, zmax = zmax A\<rparr>] else []) @
     (if ymax B < ymax A
      then [\<lparr>xmin = xmin A, xmax = xmax A, ymin = ymax B, ymax = ymax A,
             zmin = zmin A, zmax = zmax A\<rparr>] else []) @
     (if zmax B < zmax A
      then [\<lparr>xmin = xmin A, xmax = xmax A, ymin = ymin A, ymax = ymax A,
             zmin = zmax B, zmax = zmax A\<rparr>] else []) @
     (if xmin B > xmin A
      then [\<lparr>xmin = xmin A, xmax = xmin B, ymin = ymin A, ymax = ymax A,
             zmin = zmin A, zmax = zmax A\<rparr>] else []) @
     (if ymin B > ymin A
      then [\<lparr>xmin = xmin A, xmax = xmax A, ymin = ymin A, ymax = ymin B,
             zmin = zmin A, zmax = zmax A\<rparr>] else []) @
     (if zmin B > zmin A
      then [\<lparr>xmin = xmin A, xmax = xmax A, ymin = ymin A, ymax = ymax A,
             zmin = zmin A, zmax = zmin B\<rparr>] else [])"

subsection \<open>Concrete inputs\<close>

definition origin_cfg :: config where
  "origin_cfg = \<lparr>filling = ''origin'', vertical_stability = True\<rparr>"

definition free_cfg :: config where
  "free_cfg = \<lparr>filling = ''free'', vertical_stability = True\<rparr>"

definition cube10 :: Aabb where
  "cube10 = \<lparr>xmin = 0, xmax = 10, ymin = 0, ymax = 10, zmin = 0, zmax = 10\<rparr>"

definition cube2_8 :: Aabb where
  "cube2_8 = \<lparr>xmin = 2, xmax = 8, ymin = 2, ymax = 8, zmin = 2, zmax = 8\<rparr>"

definition cube_pieces :: "Aabb list" where
  "cube_pieces =
     [\<lparr>xmin = 8, xmax = 10, ymin = 0, ymax = 10, zmin = 0, zmax = 10\<rparr>,
      \<lparr>xmin = 0, xmax = 10, ymin = 8, ymax = 10, zmin = 0, zmax = 10\<rparr>,
      \<lparr>xmin = 0, xmax = 10, ymin = 0, ymax = 10, zmin = 8, zmax = 10\<rparr>,
      \<lparr>xmin = 0, xmax = 2, ymin = 0, ymax = 10, zmin = 0, zmax = 10\<rparr>,
      \<lparr>xmin = 0, xmax = 10, ymin = 0, ymax = 2, zmin = 0, zmax = 10\<rparr>,
      \<lparr>xmin = 0, xmax = 10, ymin = 0, ymax = 10, zmin = 0, zmax = 2\<rparr>]"

definition box10 :: Boxtype where
  "box10 = \<lparr>bt_id = 1, bt_l = 10, bt_w = 10, bt_h = 10,
            rot_l = True, rot_w = True, rot_h = True, bt_weight = 1\<rparr>"

definition box554 :: Boxtype where
  "box554 = \<lparr>bt_id = 2, bt_l = 5, bt_w = 5, bt_h = 4,
             rot_l = True, rot_w = True, rot_h = True, bt_weight = 1\<rparr>"

definition box123 :: Boxtype where
  "box123 = \<lparr>bt_id = 3, bt_l = 1, bt_w = 2, bt_h = 3,
             rot_l = True, rot_w = True, rot_h = True, bt_weight = 1\<rparr>"

definition box_tall :: Boxtype where
  "box_tall = \<lparr>bt_id = 4, bt_l = 10, bt_w = 10, bt_h = 50,
               rot_l = True, rot_w = True, rot_h = True, bt_weight = 1\<rparr>"

definition box_short :: Boxtype where
  "box_short = \<lparr>bt_id = 5, bt_l = 10, bt_w = 10, bt_h = 49,
                rot_l = True, rot_w = True, rot_h = True, bt_weight = 1\<rparr>"

text \<open>\<^verbatim>\<open>Block(box10, "lwh")\<close> and \<^verbatim>\<open>Block(box554, "lwh")\<close>.\<close>

definition block10 :: Block where
  "block10 = \<lparr>blk_l = 10, blk_w = 10, blk_h = 10, occupied_volume = 1000, weight = 1,
              volume = 1000, items = [(box10, 1)], free_space = Some \<lparr>spaces = []\<rparr>,
              aabbs = None, tokens = Some []\<rparr>"

definition block554 :: Block where
  "block554 = \<lparr>blk_l = 5, blk_w = 5, blk_h = 4, occupied_volume = 100, weight = 1,
               volume = 100, items = [(box554, 1)], free_space = Some \<lparr>spaces = []\<rparr>,
               aabbs = None, tokens = Some []\<rparr>"

text \<open>\<^verbatim>\<open>Block(items={box554: 1}, l=5, w=6, h=4)\<close>.\<close>

definition block564 :: Block where
  "block564 = \<lparr>blk_l = 5, blk_w = 6, blk_h = 4, occupied_volume = 100, weight = 1,
               volume = 120, items = [(box554, 1)], free_space = None,
               aabbs = None, tokens = None\<rparr>"

text \<open>\<^verbatim>\<open>block554\<close> after \<^verbatim>\<open>block554.join(block554, 'x')\<close>.\<close>

definition block1054 :: Block where
  "block1054 = \<lparr>blk_l = 10, blk_w = 5, blk_h = 4, occupied_volume = 200, weight = 2,
                volume = 200, items = [(box554, 2)], free_space = Some \<lparr>spaces = []\<rparr>,
                aabbs = None, tokens = Some []\<rparr>"

text \<open>
  \<^verbatim>\<open>Block(items={}, l=-1, w=5, h=4)\<close>, and \<^verbatim>\<open>block554\<close> after
  \<^verbatim>\<open>block554.join(block_neg, 'x')\<close>.
\<close>

definition block_neg :: Block where
  "block_neg = \<lparr>blk_l = - 1, blk_w = 5, blk_h = 4, occupied_volume = 0, weight = 0,
                volume = - 20, items = [], free_space = None, aabbs = None,
                tokens = None\<rparr>"

definition block454 :: Block where
  "block454 = \<lparr>blk_l = 4, blk_w = 5, blk_h = 4, occupied_volume = 100, weight = 1,
               volume = 80, items = [(box554, 1)], free_space = Some \<lparr>spaces = []\<rparr>,
               aabbs = None, tokens = Some []\<rparr>"

text \<open>
  A 2 x 10 x 10 box, \<^verbatim>\<open>Block(box_slab, "lll")\<close> (built twice), and the first after
  joining the second to it along \<^verbatim>\<open>'x'\<close>.
\<close>

definition box_slab :: Boxtype where
  "box_slab = \<lparr>bt_id = 9, bt_l = 2, bt_w = 10, bt_h = 10,
               rot_l = True, rot_w = True, rot_h = True, bt_weight = 1\<rparr>"

definition block_lll :: Block where
  "block_lll = \<lparr>blk_l = 2, blk_w = 2, blk_h = 2, occupied_volume = 200, weight = 1,
                volume = 200, items = [(box_slab, 1)], free_space = Some \<lparr>spaces = []\<rparr>,
                aabbs = None, tokens = Some []\<rparr>"

definition block_lll_pair :: Block where
  "block_lll_pair = \<lparr>blk_l = 4, blk_w = 2, blk_h = 2, occupied_volume = 400, weight = 2,
                     volume = 16, items = [(box_slab, 2)],
                     free_space = Some \<lparr>spaces = []\<rparr>, aabbs = None, tokens = Some []\<rparr>"

text \<open>
  \<^verbatim>\<open>Block(box_tall, "lwh")\<close>, \<^verbatim>\<open>Block(box_short, "lwh")\<close>, and the first after
  joining the second to it along \<^verbatim>\<open>'x'\<close>: 9900 of its 10000 volume units are boxes.
\<close>

definition block_tall :: Block where
  "block_tall = \<lparr>blk_l = 10, blk_w = 10, blk_h = 50, occupied_volume = 5000, weight = 1,
                 volume = 5000, items = [(box_tall, 1)], free_space = Some \<lparr>spaces = []\<rparr>,
                 aabbs = None, tokens = Some []\<rparr>"

definition block_short :: Block where
  "block_short = \<lparr>blk_l = 10, blk_w = 10, blk_h = 49, occupied_volume = 4900, weight = 1,
                  volume = 4900, items = [(box_short, 1)], free_space = Some \<lparr>spaces = []\<rparr>,
                  aabbs = None, tokens = Some []\<rparr>"

definition block_pair :: Block where
  "block_pair = \<lparr>blk_l = 20, blk_w = 10, blk_h = 50, occupied_volume = 9900, weight = 2,
                 volume = 10000, items = [(box_tall, 1), (box_short, 1)],
                 free_space = Some \<lparr>spaces = []\<rparr>, aabbs = None, tokens = Some []\<rparr>"

text \<open>\<^verbatim>\<open>Block(l=20, w=20, h=20)\<close> and \<^verbatim>\<open>Block(l=20, w=20, h=50)\<close>.\<close>

definition space20 :: Space where
  "space20 = \<lparr>xmin = 0, xmax = 20, ymin = 0, ymax = 20, zmin = 0, zmax = 20,
              container_block = (20, 20, 20), corner_point = [0, 0, 0], manhattan = 0\<rparr>"

definition container20 :: Block where
  "container20 = \<lparr>blk_l = 20, blk_w = 20, blk_h = 20, occupied_volume = 0, weight = 0,
                  volume = 8000, items = [], free_space = Some \<lparr>spaces = [space20]\<rparr>,
                  aabbs = Some [], tokens = None\<rparr>"

definition container50 :: Block where
  "container50 = \<lparr>blk_l = 20, blk_w = 20, blk_h = 50, occupied_volume = 0, weight = 0,
                  volume = 20000, items = [],
                  free_space = Some \<lparr>spaces =
                    [\<lparr>xmin = 0, xmax = 20, ymin = 0, ymax = 20, zmin = 0, zmax = 50,
                      container_block = (20, 20, 50), corner_point = [0, 0, 0],
                      manhattan = 0\<rparr>]\<rparr>,
                  aabbs = Some [], tokens = None\<rparr>"

text \<open>
  \<^verbatim>\<open>container20\<close> after \<^verbatim>\<open>add_block(block10, 0, 0, 0)\<close> under the filling
  \<^verbatim>\<open>"free"\<close>, and \<^verbatim>\<open>container50\<close> after \<^verbatim>\<open>add_block(block_pair, 0, 0, 0)\<close> under
  \<^verbatim>\<open>"origin"\<close>.
\<close>

definition spaces20_after :: "Space list" where
  "spaces20_after =
     [\<lparr>xmin = 10, xmax = 20, ymin = 0, ymax = 20, zmin = 0, zmax = 20,
       container_block = (10, 10, 10), corner_point = [20, 20, 20], manhattan = - 30\<rparr>,
      \<lparr>xmin = 0, xmax = 20, ymin = 10, ymax = 20, zmin = 0, zmax = 20,
       container_block = (10, 10, 10), corner_point = [20, 20, 20], manhattan = - 30\<rparr>,
      \<lparr>xmin = 0, xmax = 10, ymin = 0, ymax = 10, zmin = 10, zmax = 20,
       container_block = (10, 10, 10), corner_point = [0, 0, 20], manhattan = - 10\<rparr>]"

definition container20_after :: Block where
  "container20_after =
     \<lparr>blk_l = 20, blk_w = 20, blk_h = 20, occupied_volume = 1000, weight = 1,
      volume = 8000, items = [(box10, 1)],
      free_space = Some \<lparr>spaces = spaces20_after\<rparr>,
      aabbs = Some [\<lparr>xmin = 0, xmax = 10, ymin = 0, ymax = 10, zmin = 0, zmax = 10\<rparr>],
      tokens = None\<rparr>"

definition container50_after :: Block where
  "container50_after =
     \<lparr>blk_l = 20, blk_w = 20, blk_h = 50, occupied_volume = 9900, weight = 2,
      volume = 20000, items = [(box_tall, 1), (box_short, 1)],
      free_space = Some \<lparr>spaces =
        [\<lparr>xmin = 0, xmax = 20, ymin = 10, ymax = 20, zmin = 0, zmax = 50,
          container_block = (20, 10, 50), corner_point = [0, 10, 0], manhattan = 10\<rparr>]\<rparr>,
      aabbs = Some [\<lparr>xmin = 0, xmax = 20, ymin = 0, ymax = 10, zmin = 0, zmax = 50\<rparr>],
      tokens = None\<rparr>"

section \<open>Properties\<close>

subsection \<open>Evaluation lemmas\<close>

lemma bindE_Inr [simp]: "bindE (Inr v) f = f v"
  by (simp add: bindE_def)

lemma bindE_Inl [simp]: "bindE (Inl e) f = Inl e"
  by (simp add: bindE_def)

lemma box10_fields:
  "bt_l box10 = 10" "bt_w box10 = 10" "bt_h box10 = 10" "bt_weight box10 = 1"
  by (simp_all add: box10_def)

lemma box554_fields:
  "bt_l box554 = 5" "bt_w box554 = 5" "bt_h box554 = 4" "bt_weight box554 = 1"
  by (simp_all add: box554_def)

lemma box123_fields:
  "bt_l box123 = 1" "bt_w box123 = 2" "bt_h box123 = 3"
  "rot_l box123" "rot_w box123" "rot_h box123"
  by (simp_all add: box123_def)

lemma box_tall_fields:
  "bt_l box_tall = 10" "bt_w box_tall = 10" "bt_h box_tall = 50" "bt_weight box_tall = 1"
  by (simp_all add: box_tall_def)

lemma box_short_fields:
  "bt_l box_short = 10" "bt_w box_short = 10" "bt_h box_short = 49" "bt_weight box_short = 1"
  by (simp_all add: box_short_def)

lemma box554_neq_box10: "box554 \<noteq> box10"
proof
  assume "box554 = box10"
  then have "bt_l box554 = bt_l box10" by simp
  then show False by (simp add: box554_fields box10_fields)
qed

lemma box_short_neq_box_tall: "box_short \<noteq> box_tall"
proof
  assume "box_short = box_tall"
  then have "bt_h box_short = bt_h box_tall" by simp
  then show False by (simp add: box_short_fields box_tall_fields)
qed

lemma new_simple_dims:
  "new_simple cfg bt [c0, c1, c2] =
     Inr \<lparr>blk_l = pick_dim bt c0, blk_w = pick_dim bt c1, blk_h = pick_dim bt c2,
          occupied_volume = bt_volume bt, weight = bt_weight bt, volume = bt_volume bt,
          items = [(bt, 1)], free_space = Some \<lparr>spaces = []\<rparr>, aabbs = None,
          tokens = Some []\<rparr>"
  by (simp add: new_simple_def Block_init_def initialize_from_boxtype_def rot_at_def)

lemma block10_built: "new_simple cfg box10 ''lwh'' = Inr block10"
  by (simp add: new_simple_dims block10_def pick_dim_def bt_volume_def box10_fields)

lemma block554_built: "new_simple cfg box554 ''lwh'' = Inr block554"
  by (simp add: new_simple_dims block554_def pick_dim_def bt_volume_def box554_fields)

lemma block_tall_built: "new_simple cfg box_tall ''lwh'' = Inr block_tall"
  by (simp add: new_simple_dims block_tall_def pick_dim_def bt_volume_def box_tall_fields)

lemma block_short_built: "new_simple cfg box_short ''lwh'' = Inr block_short"
  by (simp add: new_simple_dims block_short_def pick_dim_def bt_volume_def box_short_fields)

lemma block564_built:
  "Block_init cfg None rot 5 6 4 None (Some [(box554, 1)]) = Inr block564"
  by (simp add: Block_init_def block564_def bt_volume_def box554_fields)

lemma Space_init_origin_corner:
  "0 < l \<Longrightarrow> 0 < w \<Longrightarrow> 0 < h \<Longrightarrow>
   Space_init cfg 0 l 0 w 0 h (l, w, h) =
     Inr \<lparr>xmin = 0, xmax = l, ymin = 0, ymax = w, zmin = 0, zmax = h,
          container_block = (l, w, h), corner_point = [0, 0, 0], manhattan = 0\<rparr>"
  by (simp add: Space_init_def Aabb_init_def ref_l_def ref_w_def ref_h_def Let_def)

subsection \<open>Itemdict\<close>

lemma dict_get_setitem:
  "dict_get (dict_setitem d key v) k dflt = (if k = key then v else dict_get d k dflt)"
  by (induction d key v rule: dict_setitem.induct) (auto simp: dict_get_def)

lemma dict_get_iadd:
  "dict_get (Itemdict_iadd a b) k 0 =
     dict_get a k 0 + sum_list (map snd (filter (\<lambda>p. fst p = k) b))"
  by (induction a b rule: Itemdict_iadd.induct) (auto simp: dict_get_setitem)

lemma dict_get_isub:
  "dict_get (Itemdict_isub a b) k 0 =
     dict_get a k 0 - sum_list (map snd (filter (\<lambda>p. fst p = k) b))"
  by (induction a b rule: Itemdict_isub.induct) (auto simp: dict_get_setitem)

text \<open>
  C9. For dictionaries \<open>A\<close> and \<open>B\<close> (two objects; \<open>B\<close> is only read), after
  \<^verbatim>\<open>A += B\<close> and then \<^verbatim>\<open>A -= B\<close> every key has the count it had in \<open>A\<close> before:
  \<^verbatim>\<open>A.get(k, 0)\<close> is unchanged for every \<open>k\<close>. A key of \<open>B\<close> that was absent from
  \<open>A\<close> stays, with count 0.
\<close>

theorem iadd_isub_restores_counts:
  "dict_get (Itemdict_isub (Itemdict_iadd A B) B) k 0 = dict_get A k 0"
  by (simp add: dict_get_iadd dict_get_isub)

lemma Itemdict_le_iff:
  "Itemdict_le d pool \<longleftrightarrow> (\<forall>(k, v) \<in> set d. v \<le> dict_get pool k 0)"
  by (induction d pool rule: Itemdict_le.induct) auto

subsection \<open>Block construction\<close>

text \<open>
  C10. \<^verbatim>\<open>Block(l=l, w=w, h=h)\<close> with no box type, no block to copy and no items raises
  \<^verbatim>\<open>ValueError\<close> when one of \<open>l\<close>, \<open>w\<close>, \<open>h\<close> is not positive, and so does the
  call \<^verbatim>\<open>Block()\<close> with every default; with positive \<open>l\<close>, \<open>w\<close>, \<open>h\<close> it returns the
  empty container whose free space is the one space \<^verbatim>\<open>Space(0, l, 0, w, 0, h)\<close>.
\<close>

theorem empty_container_init:
  "(l \<le> 0 \<or> w \<le> 0 \<or> h \<le> 0 \<longrightarrow>
      Block_init cfg None rot l w h None None = Inl ValueError) \<and>
   Block_init cfg None (RotBool True) 0 0 0 None None = Inl ValueError \<and>
   (0 < l \<and> 0 < w \<and> 0 < h \<longrightarrow>
      Block_init cfg None rot l w h None None =
        Inr \<lparr>blk_l = l, blk_w = w, blk_h = h, occupied_volume = 0, weight = 0,
             volume = l * w * h, items = [],
             free_space = Some \<lparr>spaces =
               [\<lparr>xmin = 0, xmax = l, ymin = 0, ymax = w, zmin = 0, zmax = h,
                 container_block = (l, w, h), corner_point = [0, 0, 0],
                 manhattan = 0\<rparr>]\<rparr>,
             aabbs = Some [], tokens = None\<rparr>)"
proof (intro conjI impI)
  assume "l \<le> 0 \<or> w \<le> 0 \<or> h \<le> 0"
  then have "Space_init cfg 0 l 0 w 0 h (l, w, h) = Inl ValueError"
    by (auto simp: Space_init_def Aabb_init_def)
  then show "Block_init cfg None rot l w h None None = Inl ValueError"
    by (simp add: Block_init_def)
next
  show "Block_init cfg None (RotBool True) 0 0 0 None None = Inl ValueError"
    by (simp add: Block_init_def Space_init_def Aabb_init_def)
next
  assume "0 < l \<and> 0 < w \<and> 0 < h"
  then show "Block_init cfg None rot l w h None None =
        Inr \<lparr>blk_l = l, blk_w = w, blk_h = h, occupied_volume = 0, weight = 0,
             volume = l * w * h, items = [],
             free_space = Some \<lparr>spaces =
               [\<lparr>xmin = 0, xmax = l, ymin = 0, ymax = w, zmin = 0, zmax = h,
                 container_block = (l, w, h), corner_point = [0, 0, 0],
                 manhattan = 0\<rparr>]\<rparr>,
             aabbs = Some [], tokens = None\<rparr>"
    by (simp add: Block_init_def Space_init_origin_corner)
qed

theorem empty_container_init_witness:
  "Block_init free_cfg None (RotBool True) 0 5 5 None None = Inl ValueError \<and>
   Block_init free_cfg None (RotBool True) 20 20 20 None None = Inr container20"
proof
  show "Block_init free_cfg None (RotBool True) 0 5 5 None None = Inl ValueError"
    using empty_container_init [of 0 5 5 free_cfg "RotBool True"] by simp
  show "Block_init free_cfg None (RotBool True) 20 20 20 None None = Inr container20"
    using empty_container_init [of 20 20 20 free_cfg "RotBool True"]
    by (simp add: container20_def space20_def)
qed

lemma container50_built:
  "Block_init cfg None rot 20 20 50 None None = Inr container50"
  by (simp add: Block_init_def Space_init_origin_corner container50_def)

subsection \<open>Simple blocks\<close>

text \<open>
  C8. For a box type with \<^verbatim>\<open>rot_l = rot_w = rot_h = True\<close>,
  \<^verbatim>\<open>generate_simple_blocks\<close> on the item set holding this one type appends exactly six
  blocks to an empty list, and their \<^verbatim>\<open>(l, w, h)\<close>, as a multiset, are the six
  permutations of the box's three dimensions.
\<close>

theorem simple_blocks_all_rotations:
  assumes "rot_l bt" and "rot_w bt" and "rot_h bt"
  shows "\<exists>bs. generate_simple_blocks cfg [] [(bt, q)] = Inr bs \<and> length bs = 6 \<and>
           mset (map block_dims bs) = mset (permutations [bt_l bt, bt_w bt, bt_h bt])"
  using assms
  by (simp add: new_simple_dims append_if_def block_dims_def pick_dim_def)

theorem simple_blocks_all_rotations_witness:
  "rot_l box123 \<and> rot_w box123 \<and> rot_h box123 \<and>
   (\<exists>bs. generate_simple_blocks origin_cfg [] [(box123, 4)] = Inr bs \<and> length bs = 6 \<and>
      mset (map block_dims bs) = mset (permutations [1, 2, 3]))"
  using simple_blocks_all_rotations [of box123 origin_cfg 4]
  by (simp only: box123_fields simp_thms)


subsection \<open>Joining two blocks\<close>

lemma well_formed_new_simple:
  assumes "0 \<le> bt_l bt" and "0 \<le> bt_w bt" and "0 \<le> bt_h bt"
      and "rot \<in> set (permutations ''lwh'')"
      and "new_simple cfg bt rot = Inr b"
  shows "well_formed b"
proof -
  from assms(4) have "rot = ''lwh'' \<or> rot = ''wlh'' \<or> rot = ''whl'' \<or> rot = ''lhw'' \<or>
      rot = ''hlw'' \<or> rot = ''hwl''"
    by simp
  with assms(1,2,3,5) show ?thesis
    by (auto simp: new_simple_dims pick_dim_def well_formed_def nonneg_dims_def bt_volume_def)
qed

lemma join_True_dims:
  assumes "join fo a b axis min_fr = Inr (True, a')"
  shows "joined_dims a b axis = Some (blk_l a', blk_w a', blk_h a') \<and>
         volume a' = blk_l a' * blk_w a' * blk_h a'"
  using assms
  by (auto simp: join_def bindE_def Let_def split: option.splits sum.splits if_splits)

lemma join_False_unchanged:
  assumes "join fo a b axis min_fr = Inr (False, a')"
  shows "a' = a"
  using assms
  by (auto simp: join_def bindE_def Let_def split: option.splits sum.splits if_splits)

lemma joined_dims_nonneg:
  assumes "joined_dims a b axis = Some (l, w, h)" and "well_formed a" and "well_formed b"
  shows "0 \<le> l \<and> 0 \<le> w \<and> 0 \<le> h"
  using assms
  by (auto simp: joined_dims_def well_formed_def nonneg_dims_def split: if_splits)

lemma well_formed_join:
  assumes "join fo a b axis min_fr = Inr (r, a')" and "well_formed a" and "well_formed b"
  shows "well_formed a'"
proof (cases r)
  case True
  with assms(1) have j: "join fo a b axis min_fr = Inr (True, a')" by simp
  from join_True_dims [OF j]
  have jd: "joined_dims a b axis = Some (blk_l a', blk_w a', blk_h a')"
    and vol: "volume a' = blk_l a' * blk_w a' * blk_h a'" by simp_all
  from joined_dims_nonneg [OF jd assms(2,3)] vol show ?thesis
    by (simp add: well_formed_def nonneg_dims_def)
next
  case False
  with assms(1) have j: "join fo a b axis min_fr = Inr (False, a')" by simp
  from join_False_unchanged [OF j] assms(2) show ?thesis by simp
qed

lemma block554_well_formed: "well_formed block554"
  by (simp add: well_formed_def nonneg_dims_def block554_def)

lemma box_slab_fields:
  "bt_l box_slab = 2" "bt_w box_slab = 10" "bt_h box_slab = 10" "bt_weight box_slab = 1"
  by (simp_all add: box_slab_def)

lemma block_neg_built: "Block_init cfg None rot (- 1) 5 4 None (Some []) = Inr block_neg"
  by (simp add: Block_init_def block_neg_def)

lemma block_lll_built: "new_simple cfg box_slab ''lll'' = Inr block_lll"
  by (simp add: new_simple_dims block_lll_def pick_dim_def bt_volume_def box_slab_fields)

lemma join_554_neg:
  "join exact_ops block554 block_neg ''x'' (98 / 100) = Inr (True, block454)"
  by (simp add: join_def joined_dims_def exact_ops_def block554_def block_neg_def
      block454_def)

lemma join_lll_lll:
  "join exact_ops block_lll block_lll ''x'' (98 / 100) = Inr (True, block_lll_pair)"
  by (simp add: join_def joined_dims_def exact_ops_def block_lll_def block_lll_pair_def
      dict_get_def)

lemma join_554_554:
  "join exact_ops block554 block554 ''x'' (98 / 100) = Inr (True, block1054)"
  by (simp add: join_def joined_dims_def exact_ops_def block554_def block1054_def
      dict_get_def)

lemma join_tall_short:
  "join exact_ops block_tall block_short ''x'' (98 / 100) = Inr (True, block_pair)"
  using box_short_neq_box_tall
  by (simp add: join_def joined_dims_def exact_ops_def block_tall_def block_short_def
      block_pair_def dict_get_def)

text \<open>
  C5. When the axis argument of \<^verbatim>\<open>a.join(b, axis, min_fr)\<close> is none of \<^verbatim>\<open>'x'\<close>,
  \<^verbatim>\<open>'y'\<close>, \<^verbatim>\<open>'z'\<close>, or when the fill ratio the method computes,
  \<^verbatim>\<open>(a.occupied_volume + b.occupied_volume) / new_volume\<close>, is below \<^verbatim>\<open>min_fr\<close>, the
  call returns \<^verbatim>\<open>False\<close> and \<open>a\<close> is unchanged in every attribute.
\<close>

theorem join_infeasible_unchanged:
  assumes "axis \<notin> {''x'', ''y'', ''z''} \<or>
           (\<exists>l w h fr. joined_dims a b axis = Some (l, w, h) \<and>
              truediv fo (occupied_volume a + occupied_volume b) (l * w * h) = Inr fr \<and>
              less_than fo fr min_fr)"
  shows "join fo a b axis min_fr = Inr (False, a)"
  using assms
proof
  assume "axis \<notin> {''x'', ''y'', ''z''}"
  then have "joined_dims a b axis = None" by (simp add: joined_dims_def)
  then show ?thesis by (simp add: join_def)
next
  assume "\<exists>l w h fr. joined_dims a b axis = Some (l, w, h) \<and>
              truediv fo (occupied_volume a + occupied_volume b) (l * w * h) = Inr fr \<and>
              less_than fo fr min_fr"
  then show ?thesis by (auto simp: join_def)
qed

theorem join_infeasible_unchanged_witness:
  "join exact_ops block554 block564 ''w'' (98 / 100) = Inr (False, block554) \<and>
   join exact_ops block554 block564 ''x'' (98 / 100) = Inr (False, block554)"
proof
  show "join exact_ops block554 block564 ''w'' (98 / 100) = Inr (False, block554)"
    by (rule join_infeasible_unchanged) simp
  have "joined_dims block554 block564 ''x'' = Some (10, 6, 4) \<and>
        truediv exact_ops (occupied_volume block554 + occupied_volume block564) (10 * 6 * 4)
          = Inr (200 / 240) \<and>
        less_than exact_ops (200 / 240) (98 / 100)"
    by (simp add: joined_dims_def exact_ops_def block554_def block564_def)
  then show "join exact_ops block554 block564 ''x'' (98 / 100) = Inr (False, block554)"
    by (intro join_infeasible_unchanged disjI2) blast
qed

text \<open>
  C6, as the code has it. If \<^verbatim>\<open>a.join(b, axis, min_fr)\<close> returns \<^verbatim>\<open>True\<close>, then the
  axis is \<^verbatim>\<open>'x'\<close>, \<^verbatim>\<open>'y'\<close> or \<^verbatim>\<open>'z'\<close>, the new dimension of \<open>a\<close> along it is the
  sum of the two blocks' and the other two are the maxima. When the dimensions of both
  blocks are non-negative, each new dimension is at least the maximum of the two inputs;
  when moreover \<^verbatim>\<open>a.volume = a.l * a.w * a.h\<close>, the new \<^verbatim>\<open>volume\<close> is at least the old
  one.
\<close>

theorem join_monotone:
  assumes "join fo a b axis min_fr = Inr (True, a')"
  shows "(axis = ''x'' \<and> blk_l a' = blk_l a + blk_l b \<and>
            blk_w a' = max (blk_w a) (blk_w b) \<and> blk_h a' = max (blk_h a) (blk_h b) \<or>
          axis = ''y'' \<and> blk_l a' = max (blk_l a) (blk_l b) \<and>
            blk_w a' = blk_w a + blk_w b \<and> blk_h a' = max (blk_h a) (blk_h b) \<or>
          axis = ''z'' \<and> blk_l a' = max (blk_l a) (blk_l b) \<and>
            blk_w a' = max (blk_w a) (blk_w b) \<and> blk_h a' = blk_h a + blk_h b) \<and>
         (nonneg_dims a \<and> nonneg_dims b \<longrightarrow>
            max (blk_l a) (blk_l b) \<le> blk_l a' \<and> max (blk_w a) (blk_w b) \<le> blk_w a' \<and>
            max (blk_h a) (blk_h b) \<le> blk_h a') \<and>
         (well_formed a \<and> nonneg_dims b \<longrightarrow> volume a \<le> volume a')"
proof -
  from join_True_dims [OF assms]
  have jd: "joined_dims a b axis = Some (blk_l a', blk_w a', blk_h a')"
    and vol: "volume a' = blk_l a' * blk_w a' * blk_h a'" by simp_all
  from jd have shape:
    "axis = ''x'' \<and> blk_l a' = blk_l a + blk_l b \<and>
       blk_w a' = max (blk_w a) (blk_w b) \<and> blk_h a' = max (blk_h a) (blk_h b) \<or>
     axis = ''y'' \<and> blk_l a' = max (blk_l a) (blk_l b) \<and>
       blk_w a' = blk_w a + blk_w b \<and> blk_h a' = max (blk_h a) (blk_h b) \<or>
     axis = ''z'' \<and> blk_l a' = max (blk_l a) (blk_l b) \<and>
       blk_w a' = max (blk_w a) (blk_w b) \<and> blk_h a' = blk_h a + blk_h b"
    by (auto simp: joined_dims_def split: if_splits)
  have ge: "max (blk_l a) (blk_l b) \<le> blk_l a' \<and> max (blk_w a) (blk_w b) \<le> blk_w a' \<and>
      max (blk_h a) (blk_h b) \<le> blk_h a'"
    if "nonneg_dims a \<and> nonneg_dims b"
    using that shape by (auto simp: nonneg_dims_def)
  have mono: "volume a \<le> volume a'" if wf: "well_formed a \<and> nonneg_dims b"
  proof -
    from wf have nn: "0 \<le> blk_l a" "0 \<le> blk_w a" "0 \<le> blk_h a"
      and va: "volume a = blk_l a * blk_w a * blk_h a"
      and both: "nonneg_dims a \<and> nonneg_dims b"
      by (simp_all add: well_formed_def nonneg_dims_def)
    from ge [OF both] have "blk_l a \<le> blk_l a'" "blk_w a \<le> blk_w a'" "blk_h a \<le> blk_h a'"
      by simp_all
    with nn have "blk_l a * blk_w a * blk_h a \<le> blk_l a' * blk_w a' * blk_h a'"
      by (intro mult_mono) auto
    with va vol show ?thesis by simp
  qed
  from shape ge mono show ?thesis by blast
qed

theorem join_monotone_witness:
  "join exact_ops block554 block554 ''x'' (98 / 100) = Inr (True, block1054) \<and>
   well_formed block554 \<and> nonneg_dims block554 \<and>
   blk_l block1054 = blk_l block554 + blk_l block554 \<and>
   max (blk_l block554) (blk_l block554) \<le> blk_l block1054 \<and>
   max (blk_h block554) (blk_h block554) \<le> blk_h block1054 \<and>
   volume block554 \<le> volume block1054"
proof -
  have nn: "nonneg_dims block554"
    using block554_well_formed by (simp add: well_formed_def)
  from join_monotone [OF join_554_554] join_554_554 block554_well_formed nn
  show ?thesis by simp
qed

text \<open>
  C6 as stated fails for blocks the constructor accepts. Joining
  \<^verbatim>\<open>Block(items={}, l=-1, w=5, h=4)\<close> to the 5 x 5 x 4 block along \<^verbatim>\<open>'x'\<close> returns
  \<^verbatim>\<open>True\<close> with the new \<^verbatim>\<open>l = 4\<close>, below the maximum 5 of the inputs, and the new
  \<^verbatim>\<open>volume = 80\<close>, below the old 100. Joining two \<^verbatim>\<open>Block(box_slab, "lll")\<close>, of
  dimensions 2 x 2 x 2 and \<^verbatim>\<open>volume = 200\<close>, along \<^verbatim>\<open>'x'\<close> returns \<^verbatim>\<open>True\<close> with the
  new \<^verbatim>\<open>volume = 16\<close>.
\<close>

theorem join_monotone_counterexample:
  "join exact_ops block554 block_neg ''x'' (98 / 100) = Inr (True, block454) \<and>
   blk_l block454 = 4 \<and> max (blk_l block554) (blk_l block_neg) = 5 \<and>
   volume block454 = 80 \<and> volume block554 = 100 \<and>
   join exact_ops block_lll block_lll ''x'' (98 / 100) = Inr (True, block_lll_pair) \<and>
   volume block_lll_pair = 16 \<and> volume block_lll = 200"
proof (intro conjI)
  show "join exact_ops block554 block_neg ''x'' (98 / 100) = Inr (True, block454)"
    by (rule join_554_neg)
  show "join exact_ops block_lll block_lll ''x'' (98 / 100) = Inr (True, block_lll_pair)"
    by (rule join_lll_lll)
qed (simp_all add: block454_def block554_def block_neg_def block_lll_pair_def block_lll_def)

subsection \<open>Subtracting a placed box from a space\<close>

lemma Space_init_ok:
  "x0 < x1 \<Longrightarrow> y0 < y1 \<Longrightarrow> z0 < z1 \<Longrightarrow>
   \<exists>s. Space_init cfg x0 x1 y0 y1 z0 z1 cb = Inr s \<and>
       xmin s = x0 \<and> xmax s = x1 \<and> ymin s = y0 \<and> ymax s = y1 \<and>
       zmin s = z0 \<and> zmax s = z1 \<and> container_block s = cb"
  by (simp add: Space_init_def Aabb_init_def Let_def)

text \<open>
  C7. For a space \<open>s\<close> and a placed box \<open>p\<close> with \<^verbatim>\<open>p.zmax < s.zmax\<close>,
  \<^verbatim>\<open>s.subtract(p, cb)\<close> returns a list in which the test on \<^verbatim>\<open>zmax\<close> contributes
  exactly one space \<open>top\<close>, after the (at most two) spaces of the tests on \<^verbatim>\<open>xmax\<close> and
  \<^verbatim>\<open>ymax\<close> and before the (at most three) of the tests on the minima, all of which start at
  \<^verbatim>\<open>s.zmin\<close>. \<open>top\<close> spans \<^verbatim>\<open>p.zmax .. s.zmax\<close>; with vertical stability on, its
  footprint is the one of \<open>p\<close>, with vertical stability off, the one of \<open>s\<close>.
\<close>

theorem Space_subtract_top_slab:
  assumes "is_Aabb s" and "is_Aabb p" and "zmax p < zmax s"
  shows "\<exists>pre top post.
           Space_subtract cfg s p cb = Inr (pre @ top # post) \<and>
           length pre =
             (if xmax p < xmax s then 1 else 0) + (if ymax p < ymax s then 1 else 0) \<and>
           length post =
             (if xmin p > xmin s then 1 else 0) + (if ymin p > ymin s then 1 else 0)
               + (if zmin p > zmin s then 1 else 0) \<and>
           (\<forall>q \<in> set pre \<union> set post. zmin q = zmin s) \<and>
           zmin top = zmax p \<and> zmax top = zmax s \<and> container_block top = cb \<and>
           (if vertical_stability cfg
            then xmin top = xmin p \<and> xmax top = xmax p \<and>
                 ymin top = ymin p \<and> ymax top = ymax p
            else xmin top = xmin s \<and> xmax top = xmax s \<and>
                 ymin top = ymin s \<and> ymax top = ymax s)"
proof -
  from assms have vs: "xmin s < xmax s" "ymin s < ymax s" "zmin s < zmax s"
    and vp: "xmin p < xmax p" "ymin p < ymax p" "zmin p < zmax p"
    by (simp_all add: is_Aabb_def)
  let ?mk = "Space_init cfg"
  obtain px where px: "xmax p < xmax s \<Longrightarrow>
      ?mk (xmax p) (xmax s) (ymin s) (ymax s) (zmin s) (zmax s) cb = Inr px \<and>
      zmin px = zmin s"
    using Space_init_ok [of "xmax p" "xmax s" "ymin s" "ymax s" "zmin s" "zmax s" cfg cb] vs
    by (cases "xmax p < xmax s") auto
  obtain py where py: "ymax p < ymax s \<Longrightarrow>
      ?mk (xmin s) (xmax s) (ymax p) (ymax s) (zmin s) (zmax s) cb = Inr py \<and>
      zmin py = zmin s"
    using Space_init_ok [of "xmin s" "xmax s" "ymax p" "ymax s" "zmin s" "zmax s" cfg cb] vs
    by (cases "ymax p < ymax s") auto
  obtain top where top: "(if \<not> vertical_stability cfg
        then ?mk (xmin s) (xmax s) (ymin s) (ymax s) (zmax p) (zmax s) cb
        else ?mk (xmin p) (xmax p) (ymin p) (ymax p) (zmax p) (zmax s) cb) = Inr top"
    and topc: "zmin top = zmax p" "zmax top = zmax s" "container_block top = cb"
      "if vertical_stability cfg
       then xmin top = xmin p \<and> xmax top = xmax p \<and> ymin top = ymin p \<and> ymax top = ymax p
       else xmin top = xmin s \<and> xmax top = xmax s \<and> ymin top = ymin s \<and> ymax top = ymax s"
    using Space_init_ok [of "xmin s" "xmax s" "ymin s" "ymax s" "zmax p" "zmax s" cfg cb]
      Space_init_ok [of "xmin p" "xmax p" "ymin p" "ymax p" "zmax p" "zmax s" cfg cb]
      vs vp assms(3)
    by (cases "vertical_stability cfg") auto
  obtain mx where mx: "xmin p > xmin s \<Longrightarrow>
      ?mk (xmin s) (xmin p) (ymin s) (ymax s) (zmin s) (zmax s) cb = Inr mx \<and>
      zmin mx = zmin s"
    using Space_init_ok [of "xmin s" "xmin p" "ymin s" "ymax s" "zmin s" "zmax s" cfg cb] vs
    by (cases "xmin p > xmin s") auto
  obtain my where my: "ymin p > ymin s \<Longrightarrow>
      ?mk (xmin s) (xmax s) (ymin s) (ymin p) (zmin s) (zmax s) cb = Inr my \<and>
      zmin my = zmin s"
    using Space_init_ok [of "xmin s" "xmax s" "ymin s" "ymin p" "zmin s" "zmax s" cfg cb] vs
    by (cases "ymin p > ymin s") auto
  obtain mz where mz: "zmin p > zmin s \<Longrightarrow>
      ?mk (xmin s) (xmax s) (ymin s) (ymax s) (zmin s) (zmin p) cb = Inr mz \<and>
      zmin mz = zmin s"
    using Space_init_ok [of "xmin s" "xmax s" "ymin s" "ymax s" "zmin s" "zmin p" cfg cb] vs
    by (cases "zmin p > zmin s") auto
  let ?pre = "(if xmax p < xmax s then [px] else []) @ (if ymax p < ymax s then [py] else [])"
  let ?post = "(if xmin p > xmin s then [mx] else []) @ (if ymin p > ymin s then [my] else [])
                 @ (if zmin p > zmin s then [mz] else [])"
  have run: "Space_subtract cfg s p cb = Inr (?pre @ top # ?post)"
    unfolding Space_subtract_def
    using px py top mx my mz assms(3)
    by (simp add: append_if_def)
  have others: "\<forall>q \<in> set ?pre \<union> set ?post. zmin q = zmin s"
    using px py mx my mz by auto
  have lens:
    "length ?pre = (if xmax p < xmax s then 1 else 0) + (if ymax p < ymax s then 1 else 0)"
    "length ?post = (if xmin p > xmin s then 1 else 0) + (if ymin p > ymin s then 1 else 0)
                      + (if zmin p > zmin s then 1 else 0)"
    by simp_all
  from run others lens topc show ?thesis by blast
qed

lemma space20_is_Aabb: "is_Aabb space20"
  by (simp add: is_Aabb_def space20_def)

lemma cube10_is_Aabb: "is_Aabb cube10"
  by (simp add: is_Aabb_def cube10_def)

lemma cube10_below_space20: "zmax cube10 < zmax space20"
  by (simp add: cube10_def space20_def)

theorem Space_subtract_top_slab_witness:
  "is_Aabb space20 \<and> is_Aabb cube10 \<and> zmax cube10 < zmax space20 \<and>
   (\<exists>pre top post.
      Space_subtract origin_cfg space20 cube10 (20, 20, 20) = Inr (pre @ top # post) \<and>
      length pre = 2 \<and> length post = 0 \<and>
      xmin top = 0 \<and> xmax top = 10 \<and> ymin top = 0 \<and> ymax top = 10 \<and>
      zmin top = 10 \<and> zmax top = 20)"
proof -
  from Space_subtract_top_slab [OF space20_is_Aabb cube10_is_Aabb cube10_below_space20,
      of origin_cfg "(20, 20, 20)"]
  obtain pre top post where
    "Space_subtract origin_cfg space20 cube10 (20, 20, 20) = Inr (pre @ top # post)"
    "length pre = (if xmax cube10 < xmax space20 then 1 else 0)
        + (if ymax cube10 < ymax space20 then 1 else 0)"
    "length post = (if xmin cube10 > xmin space20 then 1 else 0)
        + (if ymin cube10 > ymin space20 then 1 else 0)
        + (if zmin cube10 > zmin space20 then 1 else 0)"
    "zmin top = zmax cube10" "zmax top = zmax space20"
    "if vertical_stability origin_cfg
     then xmin top = xmin cube10 \<and> xmax top = xmax cube10 \<and>
          ymin top = ymin cube10 \<and> ymax top = ymax cube10
     else xmin top = xmin space20 \<and> xmax top = xmax space20 \<and>
          ymin top = ymin space20 \<and> ymax top = ymax space20"
    by blast
  then have "Space_subtract origin_cfg space20 cube10 (20, 20, 20) = Inr (pre @ top # post) \<and>
      length pre = 2 \<and> length post = 0 \<and>
      xmin top = 0 \<and> xmax top = 10 \<and> ymin top = 0 \<and> ymax top = 10 \<and>
      zmin top = 10 \<and> zmax top = 20"
    by (simp add: cube10_def space20_def origin_cfg_def)
  with space20_is_Aabb cube10_is_Aabb cube10_below_space20 show ?thesis by blast
qed


subsection \<open>Constructibility\<close>

text \<open>
  Where every box type of the block is a key of the pool, \<^verbatim>\<open>is_constructible\<close> returns
  what \<^verbatim>\<open>Itemdict.__le__\<close> returns.
\<close>

lemma is_constructible_loop_le:
  "fst ` set d \<subseteq> fst ` set pool \<Longrightarrow>
   is_constructible_loop d pool = Inr (Itemdict_le d pool)"
proof (induction d)
  case Nil
  then show ?case by simp
next
  case (Cons kv d)
  obtain k v where kv: "kv = (k, v)" by (cases kv)
  from Cons.prems kv have "k \<in> fst ` set pool" by simp
  then obtain p where p: "map_of pool k = Some p"
    by (metis domIff dom_map_of_conv_image_fst not_Some_eq)
  with Cons kv show ?case
    by (auto simp: dict_getitem_def dict_get_def)
qed

lemma is_constructible_keys_present:
  "fst ` set (items b) \<subseteq> fst ` set pool \<Longrightarrow>
   is_constructible b pool = Inr (Itemdict_le (items b) pool)"
  by (simp add: is_constructible_def is_constructible_loop_le)

text \<open>
  C3. The specification: \<^verbatim>\<open>b.is_constructible(P)\<close> returns, without raising, whether
  \<^verbatim>\<open>b.items[k] <= P.get(k, 0)\<close> for every \<open>k\<close>, and returns \<^verbatim>\<open>False\<close> for a box
  type of \<open>b\<close> that \<open>P\<close> lacks. The method reads \<^verbatim>\<open>items[item]\<close>: for the block of one
  \<^verbatim>\<open>box554\<close> and the pool \<^verbatim>\<open>{box10: 3}\<close> it raises \<^verbatim>\<open>KeyError\<close>, where
  \<^verbatim>\<open>Itemdict.__le__\<close> on the same two dictionaries returns \<^verbatim>\<open>False\<close>.
\<close>

theorem is_constructible_absent_key_raises:
  "is_constructible block554 [(box10, 3)] = Inl KeyError \<and>
   Itemdict_le (items block554) [(box10, 3)] = False"
  using box554_neq_box10
  by (simp add: is_constructible_def block554_def dict_getitem_def dict_get_def)

subsection \<open>Placing a block\<close>

lemma subtract_cube10_from_space20:
  "Space_subtract free_cfg space20 cube10 (10, 10, 10) = Inr spaces20_after"
  by (simp add: Space_subtract_def append_if_def Space_init_def Aabb_init_def free_cfg_def
      ref_l_def ref_w_def ref_h_def space20_def cube10_def spaces20_after_def)

lemma spaces20_after_maximal: "remove_nonmaximal_spaces spaces20_after = spaces20_after"
  by (simp add: remove_nonmaximal_spaces_def spaces20_after_def Aabb_volume_def Aabb_l_def
      Aabb_w_def Aabb_h_def Aabb_ge_def Let_def)

lemma crop_space20:
  "crop free_cfg \<lparr>spaces = [space20]\<rparr> cube10 (10, 10, 10) = Inr \<lparr>spaces = spaces20_after\<rparr>"
proof -
  have "intersects space20 cube10" "strict_intersects space20 cube10"
    by (simp_all add: intersects_def strict_intersects_def space20_def cube10_def)
  then show ?thesis
    by (simp add: crop_def subtract_cube10_from_space20 spaces20_after_maximal)
qed

lemma add_block10:
  "add_block free_cfg container20 block10 0 0 0 = Inr container20_after"
proof -
  have init: "Aabb_init 0 10 0 10 0 10 = Inr cube10"
    by (simp add: Aabb_init_def cube10_def)
  have dims: "blk_l block10 = 10" "blk_w block10 = 10" "blk_h block10 = 10"
    by (simp_all add: block10_def)
  have its: "Itemdict_iadd [] (items block10) = [(box10, 1)]"
    by (simp add: block10_def dict_get_def)
  show ?thesis
    unfolding add_block_def
    by (simp add: init dims container20_def crop_space20 its)
      (simp add: block10_def container20_after_def cube10_def)
qed

text \<open>
  C2. The specification: each space created by the \<^verbatim>\<open>crop\<close> that \<^verbatim>\<open>B.add_block(child, x, y, z)\<close>
  triggers carries \<open>B\<close> as its container block, so that its priority and corner point come
  from the dimensions of \<open>B\<close>. \<^verbatim>\<open>add_block\<close> calls \<^verbatim>\<open>self.free_space.crop(aabb, block)\<close>
  with the block being placed. In the 20 x 20 x 20 container under the filling
  \<^verbatim>\<open>"free"\<close>, placing the 10 x 10 x 10 block at the origin leaves three spaces that all
  refer to a block of dimensions \<open>(10, 10, 10)\<close>; the first has priority \<open>-30\<close> and corner
  \<open>(20, 20, 20)\<close>, where the same space built with the container's \<open>(20, 20, 20)\<close> has
  priority \<open>0\<close> and corner \<open>(20, 0, 0)\<close>.
\<close>

theorem add_block_spaces_refer_to_placed_block:
  "add_block free_cfg container20 block10 0 0 0 = Inr container20_after \<and>
   free_space container20_after = Some \<lparr>spaces = spaces20_after\<rparr> \<and>
   map container_block spaces20_after = [(10, 10, 10), (10, 10, 10), (10, 10, 10)] \<and>
   (blk_l container20, blk_w container20, blk_h container20) = (20, 20, 20) \<and>
   map manhattan spaces20_after = [- 30, - 30, - 10] \<and>
   map corner_point spaces20_after = [[20, 20, 20], [20, 20, 20], [0, 0, 20]] \<and>
   Space_init free_cfg 10 20 0 20 0 20 (20, 20, 20) =
     Inr \<lparr>xmin = 10, xmax = 20, ymin = 0, ymax = 20, zmin = 0, zmax = 20,
          container_block = (20, 20, 20), corner_point = [20, 0, 0], manhattan = 0\<rparr>"
  by (simp add: add_block10)
    (simp add: container20_after_def spaces20_after_def container20_def Space_init_def
      Aabb_init_def free_cfg_def ref_l_def ref_w_def ref_h_def)

lemma add_block_effect:
  assumes "add_block cfg c b x y z = Inr c'"
  shows "occupied_volume c' = occupied_volume c + occupied_volume b \<and>
         placed_volume c' = placed_volume c + blk_l b * blk_w b * blk_h b"
proof -
  from assms obtain aabb where a: "Aabb_init x (x + blk_l b) y (y + blk_w b) z (z + blk_h b)
      = Inr aabb"
    by (cases "Aabb_init x (x + blk_l b) y (y + blk_w b) z (z + blk_h b)")
      (simp_all add: add_block_def)
  then have vol: "Aabb_volume aabb = blk_l b * blk_w b * blk_h b"
    by (auto simp: Aabb_init_def Aabb_volume_def Aabb_l_def Aabb_w_def Aabb_h_def
        split: if_splits)
  from assms a obtain placed where p: "aabbs c = Some placed"
    by (cases "aabbs c") (simp_all add: add_block_def)
  from assms a p obtain fs where f: "free_space c = Some fs"
    by (cases "free_space c") (simp_all add: add_block_def Let_def)
  from assms a p f obtain fs' where
    "c' = c\<lparr>aabbs := Some (placed @ [aabb]),
            occupied_volume := occupied_volume c + occupied_volume b,
            weight := weight c + weight b,
            items := Itemdict_iadd (items c) (items b),
            free_space := Some fs'\<rparr>"
    by (cases "crop cfg fs aabb (blk_l b, blk_w b, blk_h b)")
      (auto simp: add_block_def Let_def)
  with p vol show ?thesis
    by (simp add: placed_volume_def)
qed

text \<open>
  C4, as the code has it. After a sequence of \<^verbatim>\<open>add_block\<close> calls that all return, the
  container's \<^verbatim>\<open>occupied_volume\<close> has grown by the sum of the children's
  \<^verbatim>\<open>occupied_volume\<close> (the volume of their boxes), and the volumes of its placed boxes by
  the sum of the children's \<^verbatim>\<open>l*w*h\<close>. The two agree when they agreed before (as in a new
  container, where both are 0) and every child has \<^verbatim>\<open>occupied_volume = l*w*h\<close>, as a
  simple block has.
\<close>

theorem add_blocks_occupied_volume:
  assumes "add_blocks cfg c ps = Inr c'"
  shows "occupied_volume c' =
           occupied_volume c + sum_list (map (\<lambda>(b, x, y, z). occupied_volume b) ps) \<and>
         placed_volume c' =
           placed_volume c + sum_list (map (\<lambda>(b, x, y, z). blk_l b * blk_w b * blk_h b) ps) \<and>
         (occupied_volume c = placed_volume c \<and>
          (\<forall>(b, x, y, z) \<in> set ps. occupied_volume b = blk_l b * blk_w b * blk_h b)
          \<longrightarrow> occupied_volume c' = placed_volume c')"
  using assms
proof (induction ps arbitrary: c)
  case Nil
  then show ?case by simp
next
  case (Cons p ps)
  obtain b x y z where p: "p = (b, x, y, z)" by (cases p) auto
  from Cons.prems p obtain c1 where c1: "add_block cfg c b x y z = Inr c1"
    and rest: "add_blocks cfg c1 ps = Inr c'"
    by (cases "add_block cfg c b x y z") simp_all
  from add_block_effect [OF c1] Cons.IH [OF rest] p show ?case
    by auto
qed

lemma add_block_pair:
  "add_block origin_cfg container50 block_pair 0 0 0 = Inr container50_after"
proof -
  let ?a = "\<lparr>xmin = 0, xmax = 20, ymin = 0, ymax = 10, zmin = 0, zmax = 50\<rparr>"
  let ?s = "\<lparr>xmin = 0, xmax = 20, ymin = 0, ymax = 20, zmin = 0, zmax = 50,
             container_block = (20, 20, 50), corner_point = [0, 0, 0], manhattan = 0\<rparr>"
  let ?t = "\<lparr>xmin = 0, xmax = 20, ymin = 10, ymax = 20, zmin = 0, zmax = 50,
             container_block = (20, 10, 50), corner_point = [0, 10, 0], manhattan = 10\<rparr>"
  have init: "Aabb_init 0 20 0 10 0 50 = Inr ?a"
    by (simp add: Aabb_init_def)
  have dims: "blk_l block_pair = 20" "blk_w block_pair = 10" "blk_h block_pair = 50"
    by (simp_all add: block_pair_def)
  have sub: "Space_subtract origin_cfg ?s ?a (20, 10, 50) = Inr [?t]"
    by (simp add: Space_subtract_def append_if_def Space_init_def Aabb_init_def
        origin_cfg_def ref_l_def ref_w_def ref_h_def)
  have mx: "remove_nonmaximal_spaces [?t] = [?t]"
    by (simp add: remove_nonmaximal_spaces_def Let_def)
  have cr: "crop origin_cfg \<lparr>spaces = [?s]\<rparr> ?a (20, 10, 50) = Inr \<lparr>spaces = [?t]\<rparr>"
    by (simp add: crop_def intersects_def strict_intersects_def sub mx)
  have its: "Itemdict_iadd [] (items block_pair) = [(box_tall, 1), (box_short, 1)]"
    using box_short_neq_box_tall by (simp add: block_pair_def dict_get_def)
  show ?thesis
    unfolding add_block_def
    by (simp add: init dims container50_def cr its)
      (simp add: block_pair_def container50_after_def)
qed

theorem add_blocks_occupied_volume_witness:
  "add_blocks free_cfg container20 [(block10, 0, 0, 0)] = Inr container20_after \<and>
   occupied_volume container20_after = 0 + (1000 + 0) \<and>
   occupied_volume container20_after = placed_volume container20_after"
proof -
  have run: "add_blocks free_cfg container20 [(block10, 0, 0, 0)] = Inr container20_after"
    by (simp add: add_block10)
  have start: "occupied_volume container20 = 0" "placed_volume container20 = 0"
    by (simp_all add: container20_def placed_volume_def)
  have child: "occupied_volume block10 = 1000" "blk_l block10 * blk_w block10 * blk_h block10 = 1000"
    by (simp_all add: block10_def)
  from add_blocks_occupied_volume [OF run] start child run show ?thesis
    by simp
qed

text \<open>
  C4 as stated fails for a joined block whose fill ratio is below 1: \<^verbatim>\<open>block_pair\<close>, the
  join of a 10 x 10 x 50 and a 10 x 10 x 49 box along \<^verbatim>\<open>'x'\<close> (fill ratio 0.99), placed
  in the 20 x 20 x 50 container, gives \<^verbatim>\<open>occupied_volume = 9900\<close> while the placed box has
  volume 10000.
\<close>

theorem add_blocks_occupied_volume_counterexample:
  "join exact_ops block_tall block_short ''x'' (98 / 100) = Inr (True, block_pair) \<and>
   add_blocks origin_cfg container50 [(block_pair, 0, 0, 0)] = Inr container50_after \<and>
   occupied_volume container50_after = 9900 \<and>
   placed_volume container50_after = 10000"
proof (intro conjI)
  show "join exact_ops block_tall block_short ''x'' (98 / 100) = Inr (True, block_pair)"
    by (rule join_tall_short)
  show "add_blocks origin_cfg container50 [(block_pair, 0, 0, 0)] = Inr container50_after"
    by (simp add: add_block_pair)
  show "occupied_volume container50_after = 9900"
    by (simp add: container50_after_def)
  show "placed_volume container50_after = 10000"
    by (simp add: container50_after_def placed_volume_def Aabb_volume_def Aabb_l_def
        Aabb_w_def Aabb_h_def)
qed


subsection \<open>Subtracting a box from a box\<close>

text \<open>
  C1. The specification: the pieces of \<^verbatim>\<open>A.subtract(B)\<close> have the union \<open>A \ B\<close>, and
  \<^verbatim>\<open>Aabb(0,10,0,10,0,10).subtract(Aabb(2,8,2,8,2,8))\<close> yields six pieces. The class that
  \<^verbatim>\<open>Aabb\<close> names is the second declaration, which has no \<^verbatim>\<open>subtract\<close>: the call raises
  \<^verbatim>\<open>AttributeError\<close> and yields no piece.
\<close>

theorem Aabb_subtract_raises:
  "Aabb_subtract cube10 cube2_8 = Inl AttributeError"
  by (simp add: Aabb_subtract_def)

text \<open>
  What the body under the first declaration computes: for a box \<open>B\<close> that meets or touches
  \<open>A\<close>, slabs whose union is \<open>A \ B\<close> as sets of integer cells. The slabs may overlap; on
  the two cubes above they are six, of volume 200 each.
\<close>

lemma first_declaration_slabs:
  assumes "is_Aabb A"
  shows "Aabb_subtract_first_declaration A B = Inr (slabs A B)"
  using assms
  by (simp add: Aabb_subtract_first_declaration_def slabs_def is_Aabb_def append_if_def
      Aabb_init_def)

lemma mem_cells:
  "(x, y, z) \<in> cells a \<longleftrightarrow>
     xmin a \<le> x \<and> x < xmax a \<and> ymin a \<le> y \<and> y < ymax a \<and> zmin a \<le> z \<and> z < zmax a"
  by (simp add: cells_def)

lemma slabs_cells:
  assumes "intersects A B"
  shows "(x, y, z) \<in> (\<Union>p \<in> set (slabs A B). cells p) \<longleftrightarrow> (x, y, z) \<in> cells A - cells B"
  using assms
  unfolding slabs_def intersects_def
  by (simp add: mem_cells) linarith

lemma slabs_union:
  assumes "intersects A B"
  shows "(\<Union>p \<in> set (slabs A B). cells p) = cells A - cells B"
proof (rule set_eqI)
  fix t :: "int \<times> int \<times> int"
  obtain x y z where t: "t = (x, y, z)" by (cases t) auto
  show "t \<in> (\<Union>p \<in> set (slabs A B). cells p) \<longleftrightarrow> t \<in> cells A - cells B"
    unfolding t by (rule slabs_cells [OF assms])
qed

lemma first_declaration_union:
  assumes "is_Aabb A" and "intersects A B"
  shows "\<exists>ps. Aabb_subtract_first_declaration A B = Inr ps \<and>
           (\<Union>p \<in> set ps. cells p) = cells A - cells B"
proof -
  have "Aabb_subtract_first_declaration A B = Inr (slabs A B)"
    by (rule first_declaration_slabs [OF assms(1)])
  with slabs_union [OF assms(2)] show ?thesis by blast
qed

lemma first_declaration_cubes:
  "Aabb_subtract_first_declaration cube10 cube2_8 = Inr cube_pieces \<and>
   length cube_pieces = 6 \<and> sum_list (map Aabb_volume cube_pieces) = 1200"
  by (simp add: first_declaration_slabs cube10_is_Aabb)
    (simp add: slabs_def cube10_def cube2_8_def cube_pieces_def Aabb_volume_def Aabb_l_def
      Aabb_w_def Aabb_h_def)

end
